theory Spec2Isabelle
  imports Main "HOL-Library.AList"
begin

section \<open>JavaScript values, as far as the credential providers touch them\<close>

text \<open>
  The providers of \<^verbatim>\<open>Authentication\<close> handle values of type \<^verbatim>\<open>any\<close>:
  whatever \<^verbatim>\<open>JSON.parse\<close> returns, with an \<^verbatim>\<open>expiration\<close> property that is
  overwritten by a \<^verbatim>\<open>Date\<close>. An object is its class (the internal slots) and the list
  of its own properties in insertion order; an array is an object whose property names are
  its indices. A \<^verbatim>\<open>Date\<close> holds its time value in milliseconds since the epoch, or
  \<open>None\<close> for the time value NaN (an \<^emph>\<open>Invalid Date\<close>). Numbers are carried by their
  integer value: nothing below computes with them except \<^verbatim>\<open>TimeClip\<close>.
\<close>

datatype objclass = PlainObject | ArrayObject | DateObject "int option"

datatype jsval =
    Undefined
  | Null
  | Bool bool
  | Num int
  | Str string
  | Obj objclass "(string \<times> jsval) list"

datatype exn =
    SyntaxError
  | TypeError
  | SecurityError
  | QuotaExceededError
  | ServiceError string

text \<open>A rejection reason: \<^verbatim>\<open>reject()\<close> passes \<^verbatim>\<open>undefined\<close>, a throw passes
  the exception.\<close>

datatype reason = NoReason | Thrown exn

text \<open>
  The state of a promise. Once settled it never changes: \<^verbatim>\<open>resolve\<close> and
  \<^verbatim>\<open>reject\<close> on a settled promise do nothing, and neither of them ends the executor
  that calls it.
\<close>

datatype 'a promise = Pending | Fulfilled 'a | Rejected reason

definition resolve :: "'a \<Rightarrow> 'a promise \<Rightarrow> 'a promise" where
  "resolve v p = (case p of Pending \<Rightarrow> Fulfilled v | _ \<Rightarrow> p)"

definition reject :: "reason \<Rightarrow> 'a promise \<Rightarrow> 'a promise" where
  "reject r p = (case p of Pending \<Rightarrow> Rejected r | _ \<Rightarrow> p)"

text \<open>
  What the source imports or takes from the browser and this repository's files outside
  \<^verbatim>\<open>Authentication\<close>: the storage key \<^verbatim>\<open>CRED_KEY\<close> of
  \<^verbatim>\<open>utils/constants\<close>, \<^verbatim>\<open>JSON.parse\<close> (\<open>None\<close>: it throws a SyntaxError),
  \<^verbatim>\<open>JSON.stringify\<close>, \<^verbatim>\<open>Date.parse\<close> (\<open>None\<close>: NaN) and the conversion
  of an object to a primitive, which for the objects of \<^verbatim>\<open>JSON.parse\<close> is a string or
  a TypeError.
\<close>

record env =
  CRED_KEY :: string
  JSON_parse :: "string \<Rightarrow> jsval option"
  JSON_stringify :: "jsval \<Rightarrow> exn + string"
  Date_parse :: "string \<Rightarrow> int option"
  Object_toPrimitive :: "objclass \<Rightarrow> (string \<times> jsval) list \<Rightarrow> exn + string"

subsection \<open>Property access in strict mode\<close>

text \<open>
  \<^verbatim>\<open>v.k\<close>: a TypeError on \<^verbatim>\<open>undefined\<close> and \<^verbatim>\<open>null\<close>; an own property
  of an object, or \<^verbatim>\<open>undefined\<close>. The only name read below is
  \<^verbatim>\<open>expiration\<close>, which no prototype defines, so a primitive has no such property.
\<close>

fun get_prop :: "jsval \<Rightarrow> string \<Rightarrow> exn + jsval" where
  "get_prop Undefined k = Inl TypeError"
| "get_prop Null k = Inl TypeError"
| "get_prop (Obj c ps) k = Inr (case map_of ps k of None \<Rightarrow> Undefined | Some v \<Rightarrow> v)"
| "get_prop v k = Inr Undefined"

text \<open>
  \<^verbatim>\<open>v.k = x\<close>: the module is strict code, so the assignment throws a TypeError on
  \<^verbatim>\<open>undefined\<close>, \<^verbatim>\<open>null\<close> and on a primitive; on an object it replaces the
  property where it stands or appends it.
\<close>

fun set_prop :: "jsval \<Rightarrow> string \<Rightarrow> jsval \<Rightarrow> exn + jsval" where
  "set_prop (Obj c ps) k x = Inr (Obj c (AList.update k x ps))"
| "set_prop v k x = Inl TypeError"

subsection \<open>Dates\<close>

definition TimeClip :: "int \<Rightarrow> int option" where
  "TimeClip t = (if \<bar>t\<bar> > 8640000000000000 then None else Some t)"

text \<open>
  \<^verbatim>\<open>new Date(v)\<close>, the time value of the new Date: a Date is copied; a string goes
  through \<^verbatim>\<open>Date.parse\<close>; anything else through \<^verbatim>\<open>ToNumber\<close> and
  \<^verbatim>\<open>TimeClip\<close> (\<^verbatim>\<open>undefined\<close> is NaN, \<^verbatim>\<open>null\<close> is 0); an object is
  first converted to a primitive, which may throw.
\<close>

fun new_Date :: "env \<Rightarrow> jsval \<Rightarrow> exn + int option" where
  "new_Date E Undefined = Inr None"
| "new_Date E Null = Inr (Some 0)"
| "new_Date E (Bool b) = Inr (Some (if b then 1 else 0))"
| "new_Date E (Num n) = Inr (TimeClip n)"
| "new_Date E (Str s) = Inr (Date_parse E s)"
| "new_Date E (Obj (DateObject t) ps) = Inr t"
| "new_Date E (Obj c ps) =
     (case Object_toPrimitive E c ps of
        Inl e \<Rightarrow> Inl e
      | Inr s \<Rightarrow> Inr (Date_parse E s))"

text \<open>
  \<^verbatim>\<open>a < b\<close> on two Dates compares their time values as numbers; a comparison with NaN
  is false.
\<close>

fun date_less :: "int option \<Rightarrow> int option \<Rightarrow> bool" where
  "date_less (Some a) (Some b) = (a < b)"
| "date_less a b = False"

section \<open>The browser's localStorage\<close>

text \<open>
  The items of the origin, whether the page may use the storage at all (reading or writing
  an inaccessible storage throws a SecurityError), and the quota: a write that would bring the
  stored keys and values over it throws a QuotaExceededError and stores nothing.
\<close>

record storage =
  items :: "(string \<times> string) list"
  accessible :: bool
  quota :: nat

definition storage_size :: "(string \<times> string) list \<Rightarrow> nat" where
  "storage_size kvs = sum_list (map (\<lambda>(k, v). length k + length v) kvs)"

definition getItem :: "storage \<Rightarrow> string \<Rightarrow> exn + string option" where
  "getItem ls k = (if accessible ls then Inr (map_of (items ls) k) else Inl SecurityError)"

definition setItem :: "storage \<Rightarrow> string \<Rightarrow> string \<Rightarrow> exn + storage" where
  "setItem ls k v =
     (if \<not> accessible ls then Inl SecurityError
      else let kvs = AList.update k v (items ls)
           in if storage_size kvs > quota ls then Inl QuotaExceededError
              else Inr (ls\<lparr>items := kvs\<rparr>))"

section \<open>Authentication\<close>

subsection \<open>AnonymousCookieCredentialsProvider\<close>

text \<open>
  \<^verbatim>\<open>JSON.parse(localStorage.getItem(CRED_KEY))\<close>: a missing item is \<^verbatim>\<open>null\<close>,
  which \<^verbatim>\<open>JSON.parse\<close> converts to the text \<^verbatim>\<open>null\<close> and parses to
  \<^verbatim>\<open>null\<close>.
\<close>

fun JSON_parse_item :: "env \<Rightarrow> string option \<Rightarrow> jsval option" where
  "JSON_parse_item E None = Some Null"
| "JSON_parse_item E (Some s) = JSON_parse E s"

text \<open>
  The body of the \<^verbatim>\<open>try\<close>: on an exception the \<^verbatim>\<open>catch\<close> calls
  \<^verbatim>\<open>reject()\<close> and the executor goes on with \<^verbatim>\<open>credentials\<close> still
  \<^verbatim>\<open>undefined\<close>.
\<close>

definition read_credentials :: "env \<Rightarrow> storage \<Rightarrow> jsval promise \<Rightarrow> jsval \<times> jsval promise" where
  "read_credentials E ls p =
     (case getItem ls (CRED_KEY E) of
        Inl e \<Rightarrow> (Undefined, reject NoReason p)
      | Inr item \<Rightarrow>
          (case JSON_parse_item E item of
             None \<Rightarrow> (Undefined, reject NoReason p)
           | Some v \<Rightarrow> (v, p)))"

text \<open>
  \<^verbatim>\<open>credentials.expiration = new Date(credentials.expiration)\<close>: the new object and
  the time value of its expiration, or the exception thrown.
\<close>

definition convert_expiration :: "env \<Rightarrow> jsval \<Rightarrow> exn + (jsval \<times> int option)" where
  "convert_expiration E credentials =
     (case get_prop credentials ''expiration'' of
        Inl e \<Rightarrow> Inl e
      | Inr x \<Rightarrow>
          (case new_Date E x of
             Inl e \<Rightarrow> Inl e
           | Inr t \<Rightarrow>
               (case set_prop credentials ''expiration'' (Obj (DateObject t) []) of
                  Inl e \<Rightarrow> Inl e
                | Inr credentials' \<Rightarrow> Inr (credentials', t))))"

text \<open>
  The executor of the promise, run at the time \<open>now\<close> that \<^verbatim>\<open>new Date()\<close> reads.
  An exception that leaves the executor rejects the promise with it (if it is still
  pending); the promise the \<^verbatim>\<open>async\<close> function returns settles as this one does.
\<close>

definition AnonymousCookieCredentialsProvider :: "env \<Rightarrow> int \<Rightarrow> storage \<Rightarrow> jsval promise" where
  "AnonymousCookieCredentialsProvider E now ls =
     (let (credentials, p1) = read_credentials E ls Pending
      in case convert_expiration E credentials of
           Inl e \<Rightarrow> reject (Thrown e) p1
         | Inr (credentials', expiration) \<Rightarrow>
             (let p2 = (if date_less expiration (Some now) then reject NoReason p1 else p1)
              in resolve credentials' p2))"

subsection \<open>The configuration and the two clients\<close>

text \<open>
  Of \<^verbatim>\<open>Config\<close> (declared in \<^verbatim>\<open>orchestration/Orchestration\<close>) the class reads two
  fields, both as strings. A client is built from its region; what a remote call answers is not this
  repository's to decide, so the three operations are parameters: each maps the client and
  the request to the response, or to the error the returned promise rejects with.
\<close>

record Config =
  identityPoolId :: string
  guestRoleArn :: string

record CognitoIdentityClient =
  cognito_region :: "string option"

record StsClient =
  sts_region :: "string option"

record GetIdRequest =
  IdentityPoolId :: string

record GetIdResponse =
  IdentityId :: string

record GetOpenIdTokenResponse =
  Token :: string

record AssumeRoleWithWebIdentityRequest =
  RoleArn :: string
  RoleSessionName :: string
  WebIdentityToken :: string

record remote =
  getId :: "CognitoIdentityClient \<Rightarrow> GetIdRequest \<Rightarrow> exn + GetIdResponse"
  getOpenIdToken :: "CognitoIdentityClient \<Rightarrow> GetIdResponse \<Rightarrow> exn + GetOpenIdTokenResponse"
  assumeRoleWithWebIdentity :: "StsClient \<Rightarrow> AssumeRoleWithWebIdentityRequest \<Rightarrow> exn + jsval"

record Authentication =
  cognitoIdentityClient :: CognitoIdentityClient
  stsClient :: StsClient
  config :: Config

subsection \<open>The constructor\<close>

text \<open>
  \<^verbatim>\<open>s.split(':')\<close>: the pieces of \<open>s\<close> between the separators; never an empty
  array.
\<close>

fun String_split :: "char \<Rightarrow> string \<Rightarrow> string list" where
  "String_split sep [] = [[]]"
| "String_split sep (c # cs) =
     (if c = sep then [] # String_split sep cs
      else (case String_split sep cs of
              [] \<Rightarrow> [[c]]
            | piece # pieces \<Rightarrow> (c # piece) # pieces))"

text \<open>\<^verbatim>\<open>a[0]\<close>: \<^verbatim>\<open>undefined\<close> (here \<open>None\<close>) on an empty array.\<close>

fun Array_first :: "'a list \<Rightarrow> 'a option" where
  "Array_first [] = None"
| "Array_first (x # xs) = Some x"

definition Authentication_constructor :: "Config \<Rightarrow> Authentication" where
  "Authentication_constructor cfg =
     (let region = Array_first (String_split CHR '':'' (identityPoolId cfg))
      in \<lparr>cognitoIdentityClient = \<lparr>cognito_region = region\<rparr>,
          stsClient = \<lparr>sts_region = region\<rparr>,
          config = cfg\<rparr>)"

subsection \<open>The state the providers run in\<close>

text \<open>
  The storage, and the remote calls made so far, oldest first: every call of a client's
  operation is logged with its request before its answer is looked at.
\<close>

datatype remote_call =
    GetId GetIdRequest
  | GetOpenIdToken GetIdResponse
  | AssumeRoleWithWebIdentity AssumeRoleWithWebIdentityRequest

record world =
  localStorage :: storage
  calls :: "remote_call list"

definition log_call :: "remote_call \<Rightarrow> world \<Rightarrow> world" where
  "log_call c w = w\<lparr>calls := calls w @ [c]\<rparr>"

subsection \<open>AnonymousCognitoCredentialsProvider\<close>

text \<open>
  The last \<^verbatim>\<open>then\<close>: \<^verbatim>\<open>localStorage.setItem(CRED_KEY, JSON.stringify(credentials))\<close>
  inside a \<^verbatim>\<open>try\<close> whose \<^verbatim>\<open>catch\<close> ignores the exception.
\<close>

definition store_credentials :: "env \<Rightarrow> jsval \<Rightarrow> storage \<Rightarrow> storage" where
  "store_credentials E credentials ls =
     (case JSON_stringify E credentials of
        Inl e \<Rightarrow> ls
      | Inr text \<Rightarrow>
          (case setItem ls (CRED_KEY E) text of
             Inl e \<Rightarrow> ls
           | Inr ls' \<Rightarrow> ls'))"

text \<open>
  The chain of \<^verbatim>\<open>then\<close>s: a step that rejects skips every later callback, and the
  promise returned rejects with that step's error.
\<close>

definition AnonymousCognitoCredentialsProvider ::
  "env \<Rightarrow> remote \<Rightarrow> Authentication \<Rightarrow> world \<Rightarrow> jsval promise \<times> world" where
  "AnonymousCognitoCredentialsProvider E R this w =
     (let getIdRequest = \<lparr>IdentityPoolId = identityPoolId (config this)\<rparr>;
          w1 = log_call (GetId getIdRequest) w
      in case getId R (cognitoIdentityClient this) getIdRequest of
           Inl e \<Rightarrow> (Rejected (Thrown e), w1)
         | Inr getIdResponse \<Rightarrow>
             (let w2 = log_call (GetOpenIdToken getIdResponse) w1
              in case getOpenIdToken R (cognitoIdentityClient this) getIdResponse of
                   Inl e \<Rightarrow> (Rejected (Thrown e), w2)
                 | Inr getOpenIdTokenResponse \<Rightarrow>
                     (let request = \<lparr>RoleArn = guestRoleArn (config this),
                                     RoleSessionName = ''cwr'',
                                     WebIdentityToken = Token getOpenIdTokenResponse\<rparr>;
                          w3 = log_call (AssumeRoleWithWebIdentity request) w2
                      in case assumeRoleWithWebIdentity R (stsClient this) request of
                           Inl e \<Rightarrow> (Rejected (Thrown e), w3)
                         | Inr credentials \<Rightarrow>
                             (Fulfilled credentials,
                              w3\<lparr>localStorage :=
                                   store_credentials E credentials (localStorage w3)\<rparr>))))"

subsection \<open>ChainAnonymousCredentialsProvider\<close>

text \<open>
  \<^verbatim>\<open>p.catch(f)\<close>: a fulfilled promise passes through and \<open>f\<close> is never called; a
  rejected one settles as the promise \<open>f\<close> returns.
\<close>

definition ChainAnonymousCredentialsProvider ::
  "env \<Rightarrow> remote \<Rightarrow> Authentication \<Rightarrow> int \<Rightarrow> world \<Rightarrow> jsval promise \<times> world" where
  "ChainAnonymousCredentialsProvider E R this now w =
     (case AnonymousCookieCredentialsProvider E now (localStorage w) of
        Fulfilled credentials \<Rightarrow> (Fulfilled credentials, w)
      | Rejected r \<Rightarrow> AnonymousCognitoCredentialsProvider E R this w
      | Pending \<Rightarrow> (Pending, w))"

section \<open>DomEventPlugin\<close>

text \<open>
  Elements and listeners are references. A \<^verbatim>\<open>TargetDomEvent\<close> is an object too, and
  the plugin's \<^verbatim>\<open>Map\<close> compares its keys by identity: \<open>oid\<close> is that identity, so
  two targets with the same fields and different \<open>oid\<close>s are different keys.
\<close>

type_synonym HTMLElement = nat
type_synonym EventListener = nat
type_synonym RecordEvent = nat

record TargetDomEvent =
  oid :: nat
  event :: string
  elementId :: "string option"
  element :: "HTMLElement option"

text \<open>
  The page: \<^verbatim>\<open>document.getElementById\<close>, the listeners registered on each element
  under each event type, and the number of closures \<^verbatim>\<open>getEventListener\<close> has
  created (the next one's identity).
\<close>

record page =
  elementsById :: "(string \<times> HTMLElement) list"
  registered :: "(HTMLElement \<times> string \<times> EventListener) list"
  closures :: nat

record DomEventPlugin =
  recordEvent :: "RecordEvent option"
  configuration :: "TargetDomEvent list"
  pluginId :: string
  eventListenerMap :: "(TargetDomEvent \<times> EventListener) list"
  enabled :: bool

definition DOM_EVENT_PLUGIN_ID :: string where
  "DOM_EVENT_PLUGIN_ID = ''com.amazonaws.rum.dom-event''"

definition DomEventPlugin_constructor :: DomEventPlugin where
  "DomEventPlugin_constructor =
     \<lparr>recordEvent = None,
      configuration = [],
      pluginId = DOM_EVENT_PLUGIN_ID,
      eventListenerMap = [],
      enabled = True\<rparr>"

text \<open>\<^verbatim>\<open>addEventListener\<close> ignores a listener already registered for the type;
  \<^verbatim>\<open>removeEventListener\<close> removes it if it is there.\<close>

definition addEventListener :: "HTMLElement \<Rightarrow> string \<Rightarrow> EventListener \<Rightarrow> page \<Rightarrow> page" where
  "addEventListener el eventType l pg =
     (if (el, eventType, l) \<in> set (registered pg) then pg
      else pg\<lparr>registered := registered pg @ [(el, eventType, l)]\<rparr>)"

definition removeEventListener :: "HTMLElement \<Rightarrow> string \<Rightarrow> EventListener \<Rightarrow> page \<Rightarrow> page" where
  "removeEventListener el eventType l pg =
     pg\<lparr>registered := removeAll (el, eventType, l) (registered pg)\<rparr>"

text \<open>
  \<^verbatim>\<open>domEvent.elementId\<close> as a condition: true when the string is defined and not
  empty; \<open>truthy_string\<close> then gives the string.
\<close>

fun truthy_string :: "string option \<Rightarrow> string option" where
  "truthy_string None = None"
| "truthy_string (Some s) = (if s = [] then None else Some s)"

definition getEventListener :: "page \<Rightarrow> EventListener \<times> page" where
  "getEventListener pg = (closures pg, pg\<lparr>closures := Suc (closures pg)\<rparr>)"

definition addEventHandler ::
  "TargetDomEvent \<Rightarrow> DomEventPlugin \<times> page \<Rightarrow> DomEventPlugin \<times> page" where
  "addEventHandler domEvent st =
     (let (this, pg) = st;
          eventType = event domEvent;
          (eventListener, pg1) = getEventListener pg;
          this1 = this\<lparr>eventListenerMap :=
                        AList.update domEvent eventListener (eventListenerMap this)\<rparr>
      in case truthy_string (elementId domEvent) of
           Some i \<Rightarrow>
             (case map_of (elementsById pg1) i of
                None \<Rightarrow> (this1, pg1)
              | Some el \<Rightarrow> (this1, addEventListener el eventType eventListener pg1))
         | None \<Rightarrow>
             (case element domEvent of
                Some el \<Rightarrow> (this1, addEventListener el eventType eventListener pg1)
              | None \<Rightarrow> (this1, pg1)))"

definition removeEventHandler ::
  "TargetDomEvent \<Rightarrow> DomEventPlugin \<times> page \<Rightarrow> DomEventPlugin \<times> page" where
  "removeEventHandler domEvent st =
     (let (this, pg) = st;
          eventListener = map_of (eventListenerMap this) domEvent;
          pg1 =
            (case (truthy_string (elementId domEvent), eventListener) of
               (Some i, Some l) \<Rightarrow>
                 (case map_of (elementsById pg) i of
                    Some el \<Rightarrow> removeEventListener el (event domEvent) l pg
                  | None \<Rightarrow> pg)
             | _ \<Rightarrow>
                 (case (element domEvent, eventListener) of
                    (Some el, Some l) \<Rightarrow> removeEventListener el (event domEvent) l pg
                  | _ \<Rightarrow> pg))
      in (this\<lparr>eventListenerMap := AList.delete domEvent (eventListenerMap this)\<rparr>, pg1))"

text \<open>\<^verbatim>\<open>config.forEach\<close>: the handlers run over the array from its first element.\<close>

definition removeListeners ::
  "TargetDomEvent list \<Rightarrow> DomEventPlugin \<times> page \<Rightarrow> DomEventPlugin \<times> page" where
  "removeListeners cfg st = fold removeEventHandler cfg st"

definition addListeners ::
  "TargetDomEvent list \<Rightarrow> DomEventPlugin \<times> page \<Rightarrow> DomEventPlugin \<times> page" where
  "addListeners cfg st = fold addEventHandler cfg st"

definition enable :: "DomEventPlugin \<times> page \<Rightarrow> DomEventPlugin \<times> page" where
  "enable st =
     (if enabled (fst st) then st
      else (let (this, pg) = addListeners (configuration (fst st)) st
            in (this\<lparr>enabled := True\<rparr>, pg)))"

definition disable :: "DomEventPlugin \<times> page \<Rightarrow> DomEventPlugin \<times> page" where
  "disable st =
     (if \<not> enabled (fst st) then st
      else (let (this, pg) = removeListeners (configuration (fst st)) st
            in (this\<lparr>enabled := False\<rparr>, pg)))"

definition configure :: "TargetDomEvent list \<Rightarrow> DomEventPlugin \<times> page \<Rightarrow> DomEventPlugin \<times> page" where
  "configure cfg st =
     (let (this, pg) =
            (if enabled (fst st)
             then addListeners cfg (removeListeners (configuration (fst st)) st)
             else st)
      in (this\<lparr>configuration := cfg\<rparr>, pg))"

section \<open>Sample states\<close>

text \<open>
  Concrete inputs on which the theorems below are evaluated. The sample environment
  answers as the browser does on the texts and values listed here: the record that
  \<^verbatim>\<open>JSON.stringify\<close> writes for the sample credentials, the same record without its
  \<^verbatim>\<open>expiration\<close>, the text \<^verbatim>\<open>null\<close>, and a text that is not JSON. The sample
  expiration, the first instant of 2099, is 4070908800000 milliseconds after the epoch.
\<close>

definition sample_text :: string where
  \<open>sample_text =
     ''{"accessKeyId":"AK1","secretAccessKey":"S1","sessionToken":"T1","expiration":"2099-01-01T00:00:00.000Z"}''\<close>

definition sample_text_no_expiration :: string where
  \<open>sample_text_no_expiration =
     ''{"accessKeyId":"AK1","secretAccessKey":"S1","sessionToken":"T1"}''\<close>

definition sample_credentials :: jsval where
  "sample_credentials =
     Obj PlainObject
       [(''accessKeyId'', Str ''AK1''),
        (''secretAccessKey'', Str ''S1''),
        (''sessionToken'', Str ''T1''),
        (''expiration'', Obj (DateObject (Some 4070908800000)) [])]"

definition sample_JSON_parse :: "string \<Rightarrow> jsval option" where
  "sample_JSON_parse s =
     (if s = sample_text then
        Some (Obj PlainObject
               [(''accessKeyId'', Str ''AK1''),
                (''secretAccessKey'', Str ''S1''),
                (''sessionToken'', Str ''T1''),
                (''expiration'', Str ''2099-01-01T00:00:00.000Z'')])
      else if s = sample_text_no_expiration then
        Some (Obj PlainObject
               [(''accessKeyId'', Str ''AK1''),
                (''secretAccessKey'', Str ''S1''),
                (''sessionToken'', Str ''T1'')])
      else if s = ''null'' then Some Null
      else None)"

definition sample_JSON_stringify :: "jsval \<Rightarrow> exn + string" where
  "sample_JSON_stringify v =
     (if v = sample_credentials then Inr sample_text else Inl TypeError)"

definition sample_Date_parse :: "string \<Rightarrow> int option" where
  "sample_Date_parse s =
     (if s = ''2099-01-01T00:00:00.000Z'' then Some 4070908800000 else None)"

definition sample_toPrimitive :: "objclass \<Rightarrow> (string \<times> jsval) list \<Rightarrow> exn + string" where
  "sample_toPrimitive c ps = Inr ''[object Object]''"

definition sample_env :: env where
  "sample_env =
     \<lparr>CRED_KEY = ''cwr_c'',
      JSON_parse = sample_JSON_parse,
      JSON_stringify = sample_JSON_stringify,
      Date_parse = sample_Date_parse,
      Object_toPrimitive = sample_toPrimitive\<rparr>"

text \<open>A storage with room that holds the given item, if any, under the key.\<close>

definition sample_storage :: "string option \<Rightarrow> storage" where
  "sample_storage item =
     \<lparr>items = (case item of None \<Rightarrow> [] | Some text \<Rightarrow> [(''cwr_c'', text)]),
      accessible = True,
      quota = 5000000\<rparr>"

text \<open>An empty storage the page may not use, and an empty one with no room.\<close>

definition blocked_storage :: storage where
  "blocked_storage = \<lparr>items = [], accessible = False, quota = 5000000\<rparr>"

definition full_storage :: storage where
  "full_storage = \<lparr>items = [], accessible = True, quota = 0\<rparr>"

definition sample_config :: Config where
  "sample_config =
     \<lparr>identityPoolId = ''us-west-2:0a1b2c3d-0000-4000-8000-000000000000'',
      guestRoleArn = ''arn:aws:iam::000000000000:role/Guest''\<rparr>"

definition sample_getId :: "CognitoIdentityClient \<Rightarrow> GetIdRequest \<Rightarrow> exn + GetIdResponse" where
  "sample_getId client request = Inr \<lparr>IdentityId = ''us-west-2:identity''\<rparr>"

definition failing_getId :: "CognitoIdentityClient \<Rightarrow> GetIdRequest \<Rightarrow> exn + GetIdResponse" where
  "failing_getId client request = Inl (ServiceError ''NetworkError'')"

definition sample_getOpenIdToken ::
  "CognitoIdentityClient \<Rightarrow> GetIdResponse \<Rightarrow> exn + GetOpenIdTokenResponse" where
  "sample_getOpenIdToken client request = Inr \<lparr>Token = ''token''\<rparr>"

definition sample_assumeRole ::
  "StsClient \<Rightarrow> AssumeRoleWithWebIdentityRequest \<Rightarrow> exn + jsval" where
  "sample_assumeRole client request = Inr sample_credentials"

definition failing_assumeRole ::
  "StsClient \<Rightarrow> AssumeRoleWithWebIdentityRequest \<Rightarrow> exn + jsval" where
  "failing_assumeRole client request = Inl (ServiceError ''AccessDenied'')"

definition sample_remote :: remote where
  "sample_remote =
     \<lparr>getId = sample_getId,
      getOpenIdToken = sample_getOpenIdToken,
      assumeRoleWithWebIdentity = sample_assumeRole\<rparr>"

definition remote_without_cognito :: remote where
  "remote_without_cognito =
     \<lparr>getId = failing_getId,
      getOpenIdToken = sample_getOpenIdToken,
      assumeRoleWithWebIdentity = sample_assumeRole\<rparr>"

definition remote_without_sts :: remote where
  "remote_without_sts =
     \<lparr>getId = sample_getId,
      getOpenIdToken = sample_getOpenIdToken,
      assumeRoleWithWebIdentity = failing_assumeRole\<rparr>"

definition sample_auth :: Authentication where
  "sample_auth = Authentication_constructor sample_config"

definition sample_world :: "storage \<Rightarrow> world" where
  "sample_world ls = \<lparr>localStorage = ls, calls = []\<rparr>"

definition sample_assumeRoleRequest :: AssumeRoleWithWebIdentityRequest where
  "sample_assumeRoleRequest =
     \<lparr>RoleArn = ''arn:aws:iam::000000000000:role/Guest'',
      RoleSessionName = ''cwr'',
      WebIdentityToken = ''token''\<rparr>"

definition sample_calls :: "remote_call list" where
  "sample_calls =
     [GetId \<lparr>IdentityPoolId = ''us-west-2:0a1b2c3d-0000-4000-8000-000000000000''\<rparr>,
      GetOpenIdToken \<lparr>IdentityId = ''us-west-2:identity''\<rparr>,
      AssumeRoleWithWebIdentity sample_assumeRoleRequest]"

definition sample_target :: TargetDomEvent where
  "sample_target =
     \<lparr>oid = 0, event = ''click'', elementId = Some ''button1'', element = None\<rparr>"

definition sample_page :: page where
  "sample_page = \<lparr>elementsById = [(''button1'', 7)], registered = [], closures = 0\<rparr>"

text \<open>The plugin after \<^verbatim>\<open>configure([sample_target])\<close> and \<^verbatim>\<open>disable()\<close>.\<close>

definition sample_disabled :: "DomEventPlugin \<times> page" where
  "sample_disabled =
     disable (configure [sample_target] (DomEventPlugin_constructor, sample_page))"

section \<open>The region of the clients\<close>

lemma String_split_first:
  "Array_first (String_split sep s) = Some (takeWhile (\<lambda>c. c \<noteq> sep) s)"
proof (induction s)
  case Nil
  show ?case by simp
next
  case (Cons c cs)
  then show ?case
    by (cases "String_split sep cs") auto
qed

text \<open>
  Claim C8. When the identity pool identifier is a region, a colon and a rest, and the
  region holds no colon, both clients are built with that region: the first piece of
  splitting the identifier at its colons.
\<close>

theorem region_is_first_segment:
  assumes "identityPoolId cfg = region @ CHR '':'' # uuid"
    and "CHR '':'' \<notin> set region"
  shows "cognito_region (cognitoIdentityClient (Authentication_constructor cfg)) = Some region
       \<and> sts_region (stsClient (Authentication_constructor cfg)) = Some region
       \<and> Array_first (String_split CHR '':'' (identityPoolId cfg)) = Some region"
proof -
  have "takeWhile (\<lambda>c. c \<noteq> CHR '':'') (region @ CHR '':'' # uuid) = region"
    using assms(2) by (induction region) auto
  then show ?thesis
    using assms(1) by (simp add: Authentication_constructor_def String_split_first Let_def)
qed

theorem region_is_first_segment_witness:
  "cognito_region (cognitoIdentityClient (Authentication_constructor sample_config))
     = Some ''us-west-2''
   \<and> sts_region (stsClient (Authentication_constructor sample_config)) = Some ''us-west-2''"
  using region_is_first_segment
    [of sample_config "''us-west-2''" "''0a1b2c3d-0000-4000-8000-000000000000''"]
  by (simp add: sample_config_def)

section \<open>Facts about the sample states\<close>

lemma sample_texts_differ: "sample_text_no_expiration \<noteq> sample_text"
  by (simp add: sample_text_def sample_text_no_expiration_def)

lemma sample_key: "CRED_KEY sample_env = ''cwr_c''"
  by (simp add: sample_env_def)

lemma sample_parse:
  "JSON_parse sample_env sample_text =
     Some (Obj PlainObject
            [(''accessKeyId'', Str ''AK1''),
             (''secretAccessKey'', Str ''S1''),
             (''sessionToken'', Str ''T1''),
             (''expiration'', Str ''2099-01-01T00:00:00.000Z'')])"
  by (simp add: sample_env_def sample_JSON_parse_def)

lemma sample_parse_no_expiration:
  "JSON_parse sample_env sample_text_no_expiration =
     Some (Obj PlainObject
            [(''accessKeyId'', Str ''AK1''),
             (''secretAccessKey'', Str ''S1''),
             (''sessionToken'', Str ''T1'')])"
  by (simp add: sample_env_def sample_JSON_parse_def sample_texts_differ)

lemma sample_parse_null: "JSON_parse sample_env ''null'' = Some Null"
  by (simp add: sample_env_def sample_JSON_parse_def sample_text_def
      sample_text_no_expiration_def)

lemma sample_parse_garbage: "JSON_parse sample_env ''not json'' = None"
  by (simp add: sample_env_def sample_JSON_parse_def sample_text_def
      sample_text_no_expiration_def)

lemma sample_stringify: "JSON_stringify sample_env sample_credentials = Inr sample_text"
  by (simp add: sample_env_def sample_JSON_stringify_def)

lemma sample_date:
  "new_Date sample_env (Str ''2099-01-01T00:00:00.000Z'') = Inr (Some 4070908800000)"
  by (simp add: sample_env_def sample_Date_parse_def)

lemma sample_getItem: "getItem (sample_storage item) ''cwr_c'' = Inr item"
  by (cases item) (simp_all add: getItem_def sample_storage_def)

lemma blocked_getItem: "getItem blocked_storage k = Inl SecurityError"
  by (simp add: getItem_def blocked_storage_def)

lemma full_getItem: "getItem full_storage k = Inr None"
  by (simp add: getItem_def full_storage_def)

lemma sample_text_length: "length sample_text = 104"
  by (simp add: sample_text_def)

lemma sample_setItem:
  "setItem (sample_storage None) ''cwr_c'' sample_text = Inr (sample_storage (Some sample_text))"
  by (simp add: setItem_def sample_storage_def storage_size_def sample_text_length)

lemma full_setItem: "setItem full_storage ''cwr_c'' sample_text = Inl QuotaExceededError"
  by (simp add: setItem_def full_storage_def storage_size_def)

lemma sample_auth_fields:
  "config sample_auth = sample_config"
  "identityPoolId sample_config = ''us-west-2:0a1b2c3d-0000-4000-8000-000000000000''"
  "guestRoleArn sample_config = ''arn:aws:iam::000000000000:role/Guest''"
  by (simp_all add: sample_auth_def Authentication_constructor_def sample_config_def Let_def)

lemma sample_remote_answers:
  "getId sample_remote c1 q1 = Inr \<lparr>IdentityId = ''us-west-2:identity''\<rparr>"
  "getOpenIdToken sample_remote c1 q2 = Inr \<lparr>Token = ''token''\<rparr>"
  "assumeRoleWithWebIdentity sample_remote c2 q3 = Inr sample_credentials"
  by (simp_all add: sample_remote_def sample_getId_def sample_getOpenIdToken_def
      sample_assumeRole_def)

lemma remote_without_cognito_answers:
  "getId remote_without_cognito c1 q1 = Inl (ServiceError ''NetworkError'')"
  by (simp add: remote_without_cognito_def failing_getId_def)

lemma remote_without_sts_answers:
  "getId remote_without_sts c1 q1 = Inr \<lparr>IdentityId = ''us-west-2:identity''\<rparr>"
  "getOpenIdToken remote_without_sts c1 q2 = Inr \<lparr>Token = ''token''\<rparr>"
  "assumeRoleWithWebIdentity remote_without_sts c2 q3 = Inl (ServiceError ''AccessDenied'')"
  by (simp_all add: remote_without_sts_def sample_getId_def sample_getOpenIdToken_def
      failing_assumeRole_def)

section \<open>The cookie provider, case by case\<close>

lemma cookie_provider_cases:
  "AnonymousCookieCredentialsProvider E now ls =
     (case getItem ls (CRED_KEY E) of
        Inl e \<Rightarrow> Rejected NoReason
      | Inr item \<Rightarrow>
          (case JSON_parse_item E item of
             None \<Rightarrow> Rejected NoReason
           | Some v \<Rightarrow>
               (case convert_expiration E v of
                  Inl e \<Rightarrow> Rejected (Thrown e)
                | Inr (v', t) \<Rightarrow>
                    if date_less t (Some now) then Rejected NoReason else Fulfilled v')))"
  by (simp add: AnonymousCookieCredentialsProvider_def read_credentials_def
      reject_def resolve_def split: sum.splits option.splits prod.splits)

lemma convert_expiration_object:
  assumes "get_prop (Obj c ps) ''expiration'' = Inr x"
    and "new_Date E x = Inr t"
  shows "convert_expiration E (Obj c ps) =
           Inr (Obj c (AList.update ''expiration'' (Obj (DateObject t) []) ps), t)"
  using assms by (simp add: convert_expiration_def)

lemma convert_expiration_not_object:
  "\<forall>c ps. v \<noteq> Obj c ps \<Longrightarrow> convert_expiration E v = Inl TypeError"
  by (cases v) (simp_all add: convert_expiration_def)

lemma cookie_provider_object:
  assumes "getItem ls (CRED_KEY E) = Inr (Some s)"
    and "JSON_parse E s = Some (Obj c ps)"
    and "get_prop (Obj c ps) ''expiration'' = Inr x"
    and "new_Date E x = Inr t"
  shows "AnonymousCookieCredentialsProvider E now ls =
           (if date_less t (Some now) then Rejected NoReason
            else Fulfilled (Obj c (AList.update ''expiration'' (Obj (DateObject t) []) ps)))"
  using assms(1,2) convert_expiration_object [OF assms(3,4)]
  by (simp add: cookie_provider_cases)

lemma cookie_provider_settles: "AnonymousCookieCredentialsProvider E now ls \<noteq> Pending"
  by (simp add: cookie_provider_cases split: sum.splits option.splits prod.splits)

text \<open>
  Claim C1, as the code has it. The promise of the cookie provider always settles, and it
  is rejected when the storage cannot be read, when the item is absent, when its text is
  not JSON, when the text parses to something that is not an object, and when the
  expiration is a valid date before the current time. A record whose expiration is
  missing or cannot be read as a date is not a miss: its expiration becomes an Invalid
  Date, which is not less than the current time, and the promise is fulfilled with the
  record.
\<close>

theorem cookie_provider_miss:
  "AnonymousCookieCredentialsProvider E now ls \<noteq> Pending
   \<and> (getItem ls (CRED_KEY E) = Inl e \<longrightarrow>
        AnonymousCookieCredentialsProvider E now ls = Rejected NoReason)
   \<and> (getItem ls (CRED_KEY E) = Inr None \<longrightarrow>
        AnonymousCookieCredentialsProvider E now ls = Rejected (Thrown TypeError))
   \<and> (getItem ls (CRED_KEY E) = Inr (Some s) \<and> JSON_parse E s = None \<longrightarrow>
        AnonymousCookieCredentialsProvider E now ls = Rejected NoReason)
   \<and> (getItem ls (CRED_KEY E) = Inr (Some s) \<and> JSON_parse E s = Some v
        \<and> (\<forall>c ps. v \<noteq> Obj c ps) \<longrightarrow>
        AnonymousCookieCredentialsProvider E now ls = Rejected (Thrown TypeError))
   \<and> (getItem ls (CRED_KEY E) = Inr (Some s) \<and> JSON_parse E s = Some (Obj c ps)
        \<and> get_prop (Obj c ps) ''expiration'' = Inr x
        \<and> new_Date E x = Inr (Some t) \<and> t < now \<longrightarrow>
        AnonymousCookieCredentialsProvider E now ls = Rejected NoReason)
   \<and> (getItem ls (CRED_KEY E) = Inr (Some s) \<and> JSON_parse E s = Some (Obj c ps)
        \<and> get_prop (Obj c ps) ''expiration'' = Inr x
        \<and> new_Date E x = Inr None \<longrightarrow>
        AnonymousCookieCredentialsProvider E now ls =
          Fulfilled (Obj c (AList.update ''expiration'' (Obj (DateObject None) []) ps)))"
proof -
  have unreadable: "AnonymousCookieCredentialsProvider E now ls = Rejected NoReason"
    if "getItem ls (CRED_KEY E) = Inl e"
    using that by (simp add: cookie_provider_cases)
  have absent: "AnonymousCookieCredentialsProvider E now ls = Rejected (Thrown TypeError)"
    if "getItem ls (CRED_KEY E) = Inr None"
    using that by (simp add: cookie_provider_cases convert_expiration_def)
  have malformed: "AnonymousCookieCredentialsProvider E now ls = Rejected NoReason"
    if "getItem ls (CRED_KEY E) = Inr (Some s)" "JSON_parse E s = None"
    using that by (simp add: cookie_provider_cases)
  have not_object: "AnonymousCookieCredentialsProvider E now ls = Rejected (Thrown TypeError)"
    if "getItem ls (CRED_KEY E) = Inr (Some s)" "JSON_parse E s = Some v"
      "\<forall>c ps. v \<noteq> Obj c ps"
    using that by (simp add: cookie_provider_cases convert_expiration_not_object)
  have expired: "AnonymousCookieCredentialsProvider E now ls = Rejected NoReason"
    if "getItem ls (CRED_KEY E) = Inr (Some s)" "JSON_parse E s = Some (Obj c ps)"
      "get_prop (Obj c ps) ''expiration'' = Inr x" "new_Date E x = Inr (Some t)" "t < now"
    using cookie_provider_object [OF that(1-4), of now] that(5) by simp
  have invalid: "AnonymousCookieCredentialsProvider E now ls =
      Fulfilled (Obj c (AList.update ''expiration'' (Obj (DateObject None) []) ps))"
    if "getItem ls (CRED_KEY E) = Inr (Some s)" "JSON_parse E s = Some (Obj c ps)"
      "get_prop (Obj c ps) ''expiration'' = Inr x" "new_Date E x = Inr None"
    using cookie_provider_object [OF that(1-4), of now] by simp
  show ?thesis
    using cookie_provider_settles unreadable absent malformed not_object expired invalid
    by blast
qed

theorem cookie_provider_miss_witness:
  "AnonymousCookieCredentialsProvider sample_env 0 blocked_storage = Rejected NoReason
   \<and> AnonymousCookieCredentialsProvider sample_env 0 (sample_storage None)
       = Rejected (Thrown TypeError)
   \<and> AnonymousCookieCredentialsProvider sample_env 0 (sample_storage (Some ''not json''))
       = Rejected NoReason
   \<and> AnonymousCookieCredentialsProvider sample_env 0 (sample_storage (Some ''null''))
       = Rejected (Thrown TypeError)
   \<and> AnonymousCookieCredentialsProvider sample_env 4070908800001
        (sample_storage (Some sample_text)) = Rejected NoReason
   \<and> AnonymousCookieCredentialsProvider sample_env 0
        (sample_storage (Some sample_text_no_expiration)) =
       Fulfilled (Obj PlainObject
                   [(''accessKeyId'', Str ''AK1''),
                    (''secretAccessKey'', Str ''S1''),
                    (''sessionToken'', Str ''T1''),
                    (''expiration'', Obj (DateObject None) [])])"
proof -
  let ?fields =
    "[(''accessKeyId'', Str ''AK1''), (''secretAccessKey'', Str ''S1''),
      (''sessionToken'', Str ''T1'')]"
  have unreadable: "getItem blocked_storage (CRED_KEY sample_env) = Inl SecurityError"
    by (simp add: blocked_getItem)
  have item: "getItem (sample_storage i) (CRED_KEY sample_env) = Inr i" for i
    by (simp add: sample_key sample_getItem)
  have stamp: "get_prop (Obj PlainObject
            [(''accessKeyId'', Str ''AK1''),
             (''secretAccessKey'', Str ''S1''),
             (''sessionToken'', Str ''T1''),
             (''expiration'', Str ''2099-01-01T00:00:00.000Z'')]) ''expiration''
         = Inr (Str ''2099-01-01T00:00:00.000Z'')"
    by simp
  have none: "get_prop (Obj PlainObject
            [(''accessKeyId'', Str ''AK1''),
             (''secretAccessKey'', Str ''S1''),
             (''sessionToken'', Str ''T1'')]) ''expiration'' = Inr Undefined"
    by simp
  have nan: "new_Date sample_env Undefined = Inr None"
    by simp
  have c1: "AnonymousCookieCredentialsProvider sample_env 0 blocked_storage = Rejected NoReason"
    using cookie_provider_miss [where E = sample_env and now = 0 and ls = blocked_storage
        and e = SecurityError] unreadable
    by simp
  have c2: "AnonymousCookieCredentialsProvider sample_env 0 (sample_storage None)
       = Rejected (Thrown TypeError)"
    using cookie_provider_miss [where E = sample_env and now = 0 and ls = "sample_storage None"]
      item [of None]
    by simp
  have c3: "AnonymousCookieCredentialsProvider sample_env 0 (sample_storage (Some ''not json''))
       = Rejected NoReason"
    using cookie_provider_miss [where E = sample_env and now = 0
        and ls = "sample_storage (Some ''not json'')" and s = "''not json''"]
      item [of "Some ''not json''"] sample_parse_garbage
    by simp
  have c4: "AnonymousCookieCredentialsProvider sample_env 0 (sample_storage (Some ''null''))
       = Rejected (Thrown TypeError)"
    using cookie_provider_miss [where E = sample_env and now = 0
        and ls = "sample_storage (Some ''null'')" and s = "''null''" and v = Null]
      item [of "Some ''null''"] sample_parse_null
    by simp
  have c5: "AnonymousCookieCredentialsProvider sample_env 4070908800001
        (sample_storage (Some sample_text)) = Rejected NoReason"
    using cookie_provider_miss [where E = sample_env and now = 4070908800001
        and ls = "sample_storage (Some sample_text)" and s = sample_text
        and c = PlainObject and ps = "?fields @ [(''expiration'', Str ''2099-01-01T00:00:00.000Z'')]"
        and x = "Str ''2099-01-01T00:00:00.000Z''" and t = 4070908800000]
      item [of "Some sample_text"] sample_parse stamp sample_date
    by simp
  have c6: "AnonymousCookieCredentialsProvider sample_env 0
        (sample_storage (Some sample_text_no_expiration)) =
       Fulfilled (Obj PlainObject (?fields @ [(''expiration'', Obj (DateObject None) [])]))"
    using cookie_provider_miss [where E = sample_env and now = 0
        and ls = "sample_storage (Some sample_text_no_expiration)"
        and s = sample_text_no_expiration and c = PlainObject and ps = ?fields
        and x = Undefined]
      item [of "Some sample_text_no_expiration"] sample_parse_no_expiration none nan
    by simp
  show ?thesis
    using c1 c2 c3 c4 c5 c6 by simp
qed

text \<open>
  The claim as the specification states it fails on a stored record without an
  \<^verbatim>\<open>expiration\<close>: the promise is fulfilled with the record, its expiration an Invalid
  Date.
\<close>

theorem cookie_provider_returns_invalid_date:
  "JSON_parse sample_env sample_text_no_expiration =
     Some (Obj PlainObject
            [(''accessKeyId'', Str ''AK1''),
             (''secretAccessKey'', Str ''S1''),
             (''sessionToken'', Str ''T1'')])
   \<and> AnonymousCookieCredentialsProvider sample_env 0
        (sample_storage (Some sample_text_no_expiration)) =
       Fulfilled (Obj PlainObject
                   [(''accessKeyId'', Str ''AK1''),
                    (''secretAccessKey'', Str ''S1''),
                    (''sessionToken'', Str ''T1''),
                    (''expiration'', Obj (DateObject None) [])])"
proof -
  have item: "getItem (sample_storage (Some sample_text_no_expiration)) (CRED_KEY sample_env)
                = Inr (Some sample_text_no_expiration)"
    by (simp add: sample_key sample_getItem)
  have none: "get_prop (Obj PlainObject
            [(''accessKeyId'', Str ''AK1''),
             (''secretAccessKey'', Str ''S1''),
             (''sessionToken'', Str ''T1'')]) ''expiration'' = Inr Undefined"
    by simp
  have nan: "new_Date sample_env Undefined = Inr None"
    by simp
  show ?thesis
    using cookie_provider_object [OF item sample_parse_no_expiration none nan, of 0]
      sample_parse_no_expiration
    by simp
qed

text \<open>
  Claim C3, as the code has it. For a stored record (an object) whose expiration reads as
  a valid date, the cookie provider returns the record, its expiration now that date,
  exactly when the date is not before the current time; it rejects exactly when the date
  is before it. A record that expires at the very instant of the check is returned.
\<close>

theorem cookie_provider_expiration:
  assumes "getItem ls (CRED_KEY E) = Inr (Some s)"
    and "JSON_parse E s = Some (Obj c ps)"
    and "get_prop (Obj c ps) ''expiration'' = Inr x"
    and "new_Date E x = Inr (Some t)"
  shows "AnonymousCookieCredentialsProvider E now ls =
           (if now \<le> t
            then Fulfilled (Obj c (AList.update ''expiration'' (Obj (DateObject (Some t)) []) ps))
            else Rejected NoReason)"
  using cookie_provider_object [OF assms, of now] by auto

theorem cookie_provider_expiration_witness:
  "AnonymousCookieCredentialsProvider sample_env 4070908799999
     (sample_storage (Some sample_text)) = Fulfilled sample_credentials
   \<and> AnonymousCookieCredentialsProvider sample_env 4070908800001
       (sample_storage (Some sample_text)) = Rejected NoReason"
proof -
  have item: "getItem (sample_storage (Some sample_text)) (CRED_KEY sample_env)
                = Inr (Some sample_text)"
    by (simp add: sample_key sample_getItem)
  have stamp: "get_prop (Obj PlainObject
            [(''accessKeyId'', Str ''AK1''),
             (''secretAccessKey'', Str ''S1''),
             (''sessionToken'', Str ''T1''),
             (''expiration'', Str ''2099-01-01T00:00:00.000Z'')]) ''expiration''
         = Inr (Str ''2099-01-01T00:00:00.000Z'')"
    by simp
  show ?thesis
    using cookie_provider_expiration [OF item sample_parse stamp sample_date, of 4070908799999]
      cookie_provider_expiration [OF item sample_parse stamp sample_date, of 4070908800001]
    by (simp add: sample_credentials_def)
qed

text \<open>
  The claim as the specification states it fails when the expiration is the current time:
  it is not strictly after it, and the record is returned.
\<close>

theorem cookie_provider_returns_at_expiration:
  "new_Date sample_env (Str ''2099-01-01T00:00:00.000Z'') = Inr (Some 4070908800000)
   \<and> AnonymousCookieCredentialsProvider sample_env 4070908800000
        (sample_storage (Some sample_text)) = Fulfilled sample_credentials"
proof -
  have item: "getItem (sample_storage (Some sample_text)) (CRED_KEY sample_env)
                = Inr (Some sample_text)"
    by (simp add: sample_key sample_getItem)
  have stamp: "get_prop (Obj PlainObject
            [(''accessKeyId'', Str ''AK1''),
             (''secretAccessKey'', Str ''S1''),
             (''sessionToken'', Str ''T1''),
             (''expiration'', Str ''2099-01-01T00:00:00.000Z'')]) ''expiration''
         = Inr (Str ''2099-01-01T00:00:00.000Z'')"
    by simp
  show ?thesis
    using cookie_provider_object [OF item sample_parse stamp sample_date, of 4070908800000]
      sample_date
    by (simp add: sample_credentials_def)
qed

section \<open>The chain of providers\<close>

lemma chain_on_miss:
  "AnonymousCookieCredentialsProvider E now (localStorage w) = Rejected r \<Longrightarrow>
   ChainAnonymousCredentialsProvider E R this now w =
     AnonymousCognitoCredentialsProvider E R this w"
  by (simp add: ChainAnonymousCredentialsProvider_def)

lemma cognito_success:
  fixes this :: Authentication
  defines "q \<equiv> \<lparr>IdentityPoolId = identityPoolId (config this)\<rparr>"
    and "request \<equiv> (\<lambda>b. \<lparr>RoleArn = guestRoleArn (config this), RoleSessionName = ''cwr'',
                             WebIdentityToken = Token b\<rparr>)"
  assumes "getId R (cognitoIdentityClient this) q = Inr a"
    and "getOpenIdToken R (cognitoIdentityClient this) a = Inr b"
    and "assumeRoleWithWebIdentity R (stsClient this) (request b) = Inr credentials"
  shows "AnonymousCognitoCredentialsProvider E R this w =
           (Fulfilled credentials,
            w\<lparr>calls := calls w @
                 [GetId q, GetOpenIdToken a, AssumeRoleWithWebIdentity (request b)],
              localStorage := store_credentials E credentials (localStorage w)\<rparr>)"
  using assms(3-5) unfolding q_def request_def
  by (simp add: AnonymousCognitoCredentialsProvider_def log_call_def Let_def)

lemma cognito_fulfilled:
  fixes this :: Authentication
  defines "q \<equiv> \<lparr>IdentityPoolId = identityPoolId (config this)\<rparr>"
    and "request \<equiv> (\<lambda>b. \<lparr>RoleArn = guestRoleArn (config this), RoleSessionName = ''cwr'',
                             WebIdentityToken = Token b\<rparr>)"
  assumes "fst (AnonymousCognitoCredentialsProvider E R this w) = Fulfilled credentials"
  shows "\<exists>a b. getId R (cognitoIdentityClient this) q = Inr a
     \<and> getOpenIdToken R (cognitoIdentityClient this) a = Inr b
     \<and> assumeRoleWithWebIdentity R (stsClient this) (request b) = Inr credentials"
  using assms(3) unfolding q_def request_def
  by (auto simp add: AnonymousCognitoCredentialsProvider_def Let_def split: sum.splits)

lemma cognito_failure:
  fixes this :: Authentication
  defines "q \<equiv> \<lparr>IdentityPoolId = identityPoolId (config this)\<rparr>"
    and "request \<equiv> (\<lambda>b. \<lparr>RoleArn = guestRoleArn (config this), RoleSessionName = ''cwr'',
                             WebIdentityToken = Token b\<rparr>)"
  assumes "getId R (cognitoIdentityClient this) q = Inl e
     \<or> (\<exists>a. getId R (cognitoIdentityClient this) q = Inr a
          \<and> (getOpenIdToken R (cognitoIdentityClient this) a = Inl e
              \<or> (\<exists>b. getOpenIdToken R (cognitoIdentityClient this) a = Inr b
                   \<and> assumeRoleWithWebIdentity R (stsClient this) (request b) = Inl e)))"
  shows "fst (AnonymousCognitoCredentialsProvider E R this w) = Rejected (Thrown e)"
    and "localStorage (snd (AnonymousCognitoCredentialsProvider E R this w)) = localStorage w"
  using assms(3) unfolding q_def request_def
  by (auto simp add: AnonymousCognitoCredentialsProvider_def log_call_def Let_def)

lemma cognito_steps:
  fixes this :: Authentication and E R w
  defines "q \<equiv> \<lparr>IdentityPoolId = identityPoolId (config this)\<rparr>"
    and "request \<equiv> (\<lambda>b. \<lparr>RoleArn = guestRoleArn (config this), RoleSessionName = ''cwr'',
                             WebIdentityToken = Token b\<rparr>)"
    and "made \<equiv> calls (snd (AnonymousCognitoCredentialsProvider E R this w))"
  shows "(\<exists>e. getId R (cognitoIdentityClient this) q = Inl e
            \<and> made = calls w @ [GetId q])
       \<or> (\<exists>a e. getId R (cognitoIdentityClient this) q = Inr a
            \<and> getOpenIdToken R (cognitoIdentityClient this) a = Inl e
            \<and> made = calls w @ [GetId q, GetOpenIdToken a])
       \<or> (\<exists>a b. getId R (cognitoIdentityClient this) q = Inr a
            \<and> getOpenIdToken R (cognitoIdentityClient this) a = Inr b
            \<and> made = calls w @
                 [GetId q, GetOpenIdToken a, AssumeRoleWithWebIdentity (request b)])"
  unfolding q_def request_def made_def
  by (simp add: AnonymousCognitoCredentialsProvider_def log_call_def Let_def
      split: sum.splits)

lemma cognito_calls:
  "\<exists>new. calls (snd (AnonymousCognitoCredentialsProvider E R this w)) = calls w @ new
     \<and> (\<forall>request. AssumeRoleWithWebIdentity request \<in> set new \<longrightarrow>
           RoleSessionName request = ''cwr'' \<and> RoleArn request = guestRoleArn (config this))"
  by (auto simp add: AnonymousCognitoCredentialsProvider_def log_call_def Let_def
      split: sum.splits)

lemma chain_calls:
  "\<exists>new. calls (snd (ChainAnonymousCredentialsProvider E R this now w)) = calls w @ new
     \<and> (\<forall>request. AssumeRoleWithWebIdentity request \<in> set new \<longrightarrow>
           RoleSessionName request = ''cwr'' \<and> RoleArn request = guestRoleArn (config this))"
proof (cases "AnonymousCookieCredentialsProvider E now (localStorage w)")
  case (Rejected r)
  then show ?thesis
    using cognito_calls [of E R this w] by (simp add: chain_on_miss)
qed (simp_all add: ChainAnonymousCredentialsProvider_def)

lemma store_credentials_failed:
  assumes "JSON_stringify E credentials = Inl e
     \<or> (\<exists>text. JSON_stringify E credentials = Inr text
          \<and> setItem ls (CRED_KEY E) text = Inl e)"
  shows "store_credentials E credentials ls = ls"
  using assms by (auto simp add: store_credentials_def)

lemma store_then_read:
  assumes "JSON_stringify E credentials = Inr text"
    and "setItem ls (CRED_KEY E) text = Inr ls'"
  shows "store_credentials E credentials ls = ls'"
    and "getItem ls' (CRED_KEY E) = Inr (Some text)"
  using assms
  by (auto simp add: store_credentials_def setItem_def getItem_def Let_def update_conv'
      split: if_splits)

lemma sample_miss:
  "AnonymousCookieCredentialsProvider sample_env 0 (sample_storage None)
     = Rejected (Thrown TypeError)"
  "AnonymousCookieCredentialsProvider sample_env 0 full_storage = Rejected (Thrown TypeError)"
  by (simp_all add: cookie_provider_cases sample_key sample_getItem full_getItem
      convert_expiration_def)

lemma sample_hit:
  "AnonymousCookieCredentialsProvider sample_env 0 (sample_storage (Some sample_text))
     = Fulfilled sample_credentials"
proof -
  have item: "getItem (sample_storage (Some sample_text)) (CRED_KEY sample_env)
                = Inr (Some sample_text)"
    by (simp add: sample_key sample_getItem)
  have stamp: "get_prop (Obj PlainObject
            [(''accessKeyId'', Str ''AK1''),
             (''secretAccessKey'', Str ''S1''),
             (''sessionToken'', Str ''T1''),
             (''expiration'', Str ''2099-01-01T00:00:00.000Z'')]) ''expiration''
         = Inr (Str ''2099-01-01T00:00:00.000Z'')"
    by simp
  show ?thesis
    using cookie_provider_object [OF item sample_parse stamp sample_date, of 0]
    by (simp add: sample_credentials_def)
qed

text \<open>
  Claim C4. When the cookie provider returns a credential, the chain returns that
  credential and leaves the storage and the log of remote calls as they were: no operation
  of either client is called.
\<close>

theorem cached_credentials_no_remote_calls:
  assumes "AnonymousCookieCredentialsProvider E now (localStorage w) = Fulfilled credentials"
  shows "ChainAnonymousCredentialsProvider E R this now w = (Fulfilled credentials, w)
       \<and> calls (snd (ChainAnonymousCredentialsProvider E R this now w)) = calls w"
  using assms by (simp add: ChainAnonymousCredentialsProvider_def)

theorem cached_credentials_no_remote_calls_witness:
  "AnonymousCookieCredentialsProvider sample_env 0
     (localStorage (sample_world (sample_storage (Some sample_text))))
     = Fulfilled sample_credentials
   \<and> ChainAnonymousCredentialsProvider sample_env sample_remote sample_auth 0
       (sample_world (sample_storage (Some sample_text)))
     = (Fulfilled sample_credentials, sample_world (sample_storage (Some sample_text)))
   \<and> calls (snd (ChainAnonymousCredentialsProvider sample_env sample_remote sample_auth 0
       (sample_world (sample_storage (Some sample_text))))) = []"
proof -
  have hit: "AnonymousCookieCredentialsProvider sample_env 0
     (localStorage (sample_world (sample_storage (Some sample_text))))
     = Fulfilled sample_credentials"
    by (simp add: sample_world_def sample_hit)
  show ?thesis
    using hit cached_credentials_no_remote_calls [OF hit, of sample_remote sample_auth]
    by (simp add: sample_world_def)
qed

text \<open>
  Claim C2. On a cache miss the chain runs the Cognito provider. If the three operations
  answer, \<^verbatim>\<open>getId\<close> the request with the configured pool, \<^verbatim>\<open>getOpenIdToken\<close> the
  answer of \<^verbatim>\<open>getId\<close>, and \<^verbatim>\<open>assumeRoleWithWebIdentity\<close> the request with the token of
  \<^verbatim>\<open>getOpenIdToken\<close>, then the chain returns the credentials of the third answer and
  has made exactly these three calls in this order. Conversely, whenever the chain returns
  credentials after a miss, the three operations have answered so, the credentials are the
  third answer, and the calls made are these three. In every run after a miss the calls
  made are the first, the first two or all three of them, in this order, each made only
  when the one before it has answered.
\<close>

theorem remote_exchange_in_order:
  fixes this :: Authentication and E R now w
  defines "q \<equiv> \<lparr>IdentityPoolId = identityPoolId (config this)\<rparr>"
    and "request \<equiv> (\<lambda>b. \<lparr>RoleArn = guestRoleArn (config this), RoleSessionName = ''cwr'',
                             WebIdentityToken = Token b\<rparr>)"
    and "result \<equiv> ChainAnonymousCredentialsProvider E R this now w"
  assumes "AnonymousCookieCredentialsProvider E now (localStorage w) = Rejected r"
  shows "(getId R (cognitoIdentityClient this) q = Inr a
          \<and> getOpenIdToken R (cognitoIdentityClient this) a = Inr b
          \<and> assumeRoleWithWebIdentity R (stsClient this) (request b) = Inr credentials
          \<longrightarrow> fst result = Fulfilled credentials
            \<and> calls (snd result) =
                calls w @ [GetId q, GetOpenIdToken a, AssumeRoleWithWebIdentity (request b)])
       \<and> (fst result = Fulfilled response
          \<longrightarrow> (\<exists>a' b'.
                getId R (cognitoIdentityClient this) q = Inr a'
              \<and> getOpenIdToken R (cognitoIdentityClient this) a' = Inr b'
              \<and> assumeRoleWithWebIdentity R (stsClient this) (request b') = Inr response
              \<and> calls (snd result) =
                  calls w @
                    [GetId q, GetOpenIdToken a', AssumeRoleWithWebIdentity (request b')]))
       \<and> ((\<exists>e. getId R (cognitoIdentityClient this) q = Inl e
              \<and> calls (snd result) = calls w @ [GetId q])
          \<or> (\<exists>a' e. getId R (cognitoIdentityClient this) q = Inr a'
              \<and> getOpenIdToken R (cognitoIdentityClient this) a' = Inl e
              \<and> calls (snd result) = calls w @ [GetId q, GetOpenIdToken a'])
          \<or> (\<exists>a' b'. getId R (cognitoIdentityClient this) q = Inr a'
              \<and> getOpenIdToken R (cognitoIdentityClient this) a' = Inr b'
              \<and> calls (snd result) =
                  calls w @
                    [GetId q, GetOpenIdToken a', AssumeRoleWithWebIdentity (request b')]))"
proof -
  have chain: "result = AnonymousCognitoCredentialsProvider E R this w"
    unfolding result_def using assms(4) by (rule chain_on_miss)
  have forth: "fst result = Fulfilled c
      \<and> calls (snd result) =
          calls w @ [GetId q, GetOpenIdToken x, AssumeRoleWithWebIdentity (request y)]"
    if "getId R (cognitoIdentityClient this) q = Inr x"
      and "getOpenIdToken R (cognitoIdentityClient this) x = Inr y"
      and "assumeRoleWithWebIdentity R (stsClient this) (request y) = Inr c"
    for x y c
    using cognito_success [OF that [unfolded q_def request_def], of E w]
    by (simp add: chain q_def request_def)
  have "\<exists>a' b'.
          getId R (cognitoIdentityClient this) q = Inr a'
        \<and> getOpenIdToken R (cognitoIdentityClient this) a' = Inr b'
        \<and> assumeRoleWithWebIdentity R (stsClient this) (request b') = Inr response
        \<and> calls (snd result) =
            calls w @ [GetId q, GetOpenIdToken a', AssumeRoleWithWebIdentity (request b')]"
    if "fst result = Fulfilled response"
  proof -
    from that have "fst (AnonymousCognitoCredentialsProvider E R this w) = Fulfilled response"
      by (simp add: chain)
    from cognito_fulfilled [OF this] obtain a' b' where
      steps: "getId R (cognitoIdentityClient this) q = Inr a'"
        "getOpenIdToken R (cognitoIdentityClient this) a' = Inr b'"
        "assumeRoleWithWebIdentity R (stsClient this) (request b') = Inr response"
      unfolding q_def request_def by blast
    show ?thesis
      using steps forth [OF steps] by blast
  qed
  moreover note forth
  moreover have "(\<exists>e. getId R (cognitoIdentityClient this) q = Inl e
              \<and> calls (snd result) = calls w @ [GetId q])
          \<or> (\<exists>a' e. getId R (cognitoIdentityClient this) q = Inr a'
              \<and> getOpenIdToken R (cognitoIdentityClient this) a' = Inl e
              \<and> calls (snd result) = calls w @ [GetId q, GetOpenIdToken a'])
          \<or> (\<exists>a' b'. getId R (cognitoIdentityClient this) q = Inr a'
              \<and> getOpenIdToken R (cognitoIdentityClient this) a' = Inr b'
              \<and> calls (snd result) =
                  calls w @
                    [GetId q, GetOpenIdToken a', AssumeRoleWithWebIdentity (request b')])"
    using cognito_steps [of R this E w] by (simp add: chain q_def request_def)
  ultimately show ?thesis
    by blast
qed

theorem remote_exchange_in_order_witness:
  "AnonymousCookieCredentialsProvider sample_env 0
     (localStorage (sample_world (sample_storage None))) = Rejected (Thrown TypeError)
   \<and> fst (ChainAnonymousCredentialsProvider sample_env sample_remote sample_auth 0
       (sample_world (sample_storage None))) = Fulfilled sample_credentials
   \<and> calls (snd (ChainAnonymousCredentialsProvider sample_env sample_remote sample_auth 0
       (sample_world (sample_storage None)))) = sample_calls"
proof -
  have miss: "AnonymousCookieCredentialsProvider sample_env 0
     (localStorage (sample_world (sample_storage None))) = Rejected (Thrown TypeError)"
    by (simp add: sample_world_def sample_miss)
  show ?thesis
    using miss
      remote_exchange_in_order [OF miss, where R = sample_remote and this = sample_auth
        and a = "\<lparr>IdentityId = ''us-west-2:identity''\<rparr>" and b = "\<lparr>Token = ''token''\<rparr>"
        and credentials = sample_credentials]
    by (simp add: sample_remote_answers sample_auth_fields sample_assumeRoleRequest_def
        sample_calls_def sample_world_def)
qed

text \<open>
  Claim C5. On a cache miss, when \<^verbatim>\<open>getId\<close> fails, or it answers and
  \<^verbatim>\<open>getOpenIdToken\<close> fails, or both answer and \<^verbatim>\<open>assumeRoleWithWebIdentity\<close>
  fails, the chain rejects with the error of the failing step and the storage is what it
  was: no record is written.
\<close>

theorem remote_failure_writes_nothing:
  fixes this :: Authentication and E R now w
  defines "q \<equiv> \<lparr>IdentityPoolId = identityPoolId (config this)\<rparr>"
    and "request \<equiv> (\<lambda>b. \<lparr>RoleArn = guestRoleArn (config this), RoleSessionName = ''cwr'',
                             WebIdentityToken = Token b\<rparr>)"
    and "result \<equiv> ChainAnonymousCredentialsProvider E R this now w"
  assumes "AnonymousCookieCredentialsProvider E now (localStorage w) = Rejected r"
    and "getId R (cognitoIdentityClient this) q = Inl e
     \<or> (\<exists>a. getId R (cognitoIdentityClient this) q = Inr a
          \<and> (getOpenIdToken R (cognitoIdentityClient this) a = Inl e
              \<or> (\<exists>b. getOpenIdToken R (cognitoIdentityClient this) a = Inr b
                   \<and> assumeRoleWithWebIdentity R (stsClient this) (request b) = Inl e)))"
  shows "fst result = Rejected (Thrown e) \<and> localStorage (snd result) = localStorage w"
  using cognito_failure [OF assms(5) [unfolded q_def request_def], of E w]
    chain_on_miss [OF assms(4), of R this]
  by (simp add: result_def)

theorem remote_failure_writes_nothing_witness:
  "AnonymousCookieCredentialsProvider sample_env 0
     (localStorage (sample_world (sample_storage None))) = Rejected (Thrown TypeError)
   \<and> fst (ChainAnonymousCredentialsProvider sample_env remote_without_cognito sample_auth 0
          (sample_world (sample_storage None))) = Rejected (Thrown (ServiceError ''NetworkError''))
   \<and> localStorage (snd (ChainAnonymousCredentialsProvider sample_env remote_without_cognito
          sample_auth 0 (sample_world (sample_storage None)))) = sample_storage None
   \<and> fst (ChainAnonymousCredentialsProvider sample_env remote_without_sts sample_auth 0
          (sample_world (sample_storage None))) = Rejected (Thrown (ServiceError ''AccessDenied''))
   \<and> localStorage (snd (ChainAnonymousCredentialsProvider sample_env remote_without_sts
          sample_auth 0 (sample_world (sample_storage None)))) = sample_storage None"
proof -
  have miss: "AnonymousCookieCredentialsProvider sample_env 0
     (localStorage (sample_world (sample_storage None))) = Rejected (Thrown TypeError)"
    by (simp add: sample_world_def sample_miss)
  have first: "getId remote_without_cognito (cognitoIdentityClient sample_auth)
           \<lparr>IdentityPoolId = identityPoolId (config sample_auth)\<rparr>
         = Inl (ServiceError ''NetworkError'')
     \<or> (\<exists>a. getId remote_without_cognito (cognitoIdentityClient sample_auth)
                \<lparr>IdentityPoolId = identityPoolId (config sample_auth)\<rparr> = Inr a
          \<and> (getOpenIdToken remote_without_cognito (cognitoIdentityClient sample_auth) a
                = Inl (ServiceError ''NetworkError'')
              \<or> (\<exists>b. getOpenIdToken remote_without_cognito (cognitoIdentityClient sample_auth) a
                        = Inr b
                   \<and> assumeRoleWithWebIdentity remote_without_cognito (stsClient sample_auth)
                        \<lparr>RoleArn = guestRoleArn (config sample_auth),
                         RoleSessionName = ''cwr'',
                         WebIdentityToken = Token b\<rparr> = Inl (ServiceError ''NetworkError''))))"
    by (simp add: remote_without_cognito_answers)
  have third: "getId remote_without_sts (cognitoIdentityClient sample_auth)
           \<lparr>IdentityPoolId = identityPoolId (config sample_auth)\<rparr>
         = Inl (ServiceError ''AccessDenied'')
     \<or> (\<exists>a. getId remote_without_sts (cognitoIdentityClient sample_auth)
                \<lparr>IdentityPoolId = identityPoolId (config sample_auth)\<rparr> = Inr a
          \<and> (getOpenIdToken remote_without_sts (cognitoIdentityClient sample_auth) a
                = Inl (ServiceError ''AccessDenied'')
              \<or> (\<exists>b. getOpenIdToken remote_without_sts (cognitoIdentityClient sample_auth) a
                        = Inr b
                   \<and> assumeRoleWithWebIdentity remote_without_sts (stsClient sample_auth)
                        \<lparr>RoleArn = guestRoleArn (config sample_auth),
                         RoleSessionName = ''cwr'',
                         WebIdentityToken = Token b\<rparr> = Inl (ServiceError ''AccessDenied''))))"
    by (simp add: remote_without_sts_answers)
  show ?thesis
    using miss remote_failure_writes_nothing [OF miss first]
      remote_failure_writes_nothing [OF miss third]
    by (simp add: sample_world_def)
qed

text \<open>
  Claim C7. When the three operations answer and the write to the storage throws
  (\<^verbatim>\<open>JSON.stringify\<close> or \<^verbatim>\<open>setItem\<close>), the Cognito provider still returns the
  credentials of the third answer, and so does the chain after a cache miss; the storage
  is what it was.
\<close>

theorem failed_cache_write_is_swallowed:
  fixes this :: Authentication
  defines "q \<equiv> \<lparr>IdentityPoolId = identityPoolId (config this)\<rparr>"
    and "request \<equiv> (\<lambda>b. \<lparr>RoleArn = guestRoleArn (config this), RoleSessionName = ''cwr'',
                             WebIdentityToken = Token b\<rparr>)"
  assumes "getId R (cognitoIdentityClient this) q = Inr a"
    and "getOpenIdToken R (cognitoIdentityClient this) a = Inr b"
    and "assumeRoleWithWebIdentity R (stsClient this) (request b) = Inr credentials"
    and "JSON_stringify E credentials = Inl e
     \<or> (\<exists>text. JSON_stringify E credentials = Inr text
          \<and> setItem (localStorage w) (CRED_KEY E) text = Inl e)"
  shows "fst (AnonymousCognitoCredentialsProvider E R this w) = Fulfilled credentials
       \<and> localStorage (snd (AnonymousCognitoCredentialsProvider E R this w)) = localStorage w
       \<and> (AnonymousCookieCredentialsProvider E now (localStorage w) = Rejected r \<longrightarrow>
            fst (ChainAnonymousCredentialsProvider E R this now w) = Fulfilled credentials
            \<and> localStorage (snd (ChainAnonymousCredentialsProvider E R this now w))
                = localStorage w)"
  using cognito_success [OF assms(3-5) [unfolded q_def request_def], of E w]
    store_credentials_failed [OF assms(6)]
  by (simp add: chain_on_miss)

theorem failed_cache_write_is_swallowed_witness:
  "setItem (localStorage (sample_world full_storage)) (CRED_KEY sample_env) sample_text
     = Inl QuotaExceededError
   \<and> AnonymousCookieCredentialsProvider sample_env 0 (localStorage (sample_world full_storage))
       = Rejected (Thrown TypeError)
   \<and> fst (AnonymousCognitoCredentialsProvider sample_env sample_remote sample_auth
          (sample_world full_storage)) = Fulfilled sample_credentials
   \<and> fst (ChainAnonymousCredentialsProvider sample_env sample_remote sample_auth 0
          (sample_world full_storage)) = Fulfilled sample_credentials
   \<and> localStorage (snd (ChainAnonymousCredentialsProvider sample_env sample_remote sample_auth 0
          (sample_world full_storage))) = full_storage"
proof -
  have noroom: "setItem (localStorage (sample_world full_storage)) (CRED_KEY sample_env)
      sample_text = Inl QuotaExceededError"
    by (simp add: sample_world_def sample_key full_setItem)
  have thrown: "JSON_stringify sample_env sample_credentials = Inl QuotaExceededError
     \<or> (\<exists>text. JSON_stringify sample_env sample_credentials = Inr text
          \<and> setItem (localStorage (sample_world full_storage)) (CRED_KEY sample_env) text
                = Inl QuotaExceededError)"
    using noroom by (simp add: sample_stringify)
  have miss: "AnonymousCookieCredentialsProvider sample_env 0
      (localStorage (sample_world full_storage)) = Rejected (Thrown TypeError)"
    by (simp add: sample_world_def sample_miss)
  show ?thesis
    using noroom miss thrown
      failed_cache_write_is_swallowed [where R = sample_remote and this = sample_auth
        and E = sample_env and w = "sample_world full_storage" and now = 0
        and r = "Thrown TypeError" and a = "\<lparr>IdentityId = ''us-west-2:identity''\<rparr>"
        and b = "\<lparr>Token = ''token''\<rparr>" and credentials = sample_credentials
        and e = QuotaExceededError]
    by (simp add: sample_remote_answers sample_world_def)
qed

text \<open>
  Claim C9. Every \<^verbatim>\<open>assumeRoleWithWebIdentity\<close> call that the Cognito provider, or the
  chain, adds to the log carries the role session name \<^verbatim>\<open>cwr\<close> and the role ARN of
  the configuration.
\<close>

theorem sts_request_is_fixed:
  "(AssumeRoleWithWebIdentity request
      \<in> set (drop (length (calls w))
                (calls (snd (AnonymousCognitoCredentialsProvider E R this w))))
    \<longrightarrow> RoleSessionName request = ''cwr'' \<and> RoleArn request = guestRoleArn (config this))
   \<and> (AssumeRoleWithWebIdentity request
      \<in> set (drop (length (calls w))
                (calls (snd (ChainAnonymousCredentialsProvider E R this now w))))
    \<longrightarrow> RoleSessionName request = ''cwr'' \<and> RoleArn request = guestRoleArn (config this))"
  using cognito_calls [of E R this w] chain_calls [of E R this now w]
  by auto

theorem sts_request_is_fixed_witness:
  "AssumeRoleWithWebIdentity sample_assumeRoleRequest
      \<in> set (drop (length (calls (sample_world (sample_storage None))))
                (calls (snd (AnonymousCognitoCredentialsProvider sample_env sample_remote
                   sample_auth (sample_world (sample_storage None))))))
   \<and> AssumeRoleWithWebIdentity sample_assumeRoleRequest
      \<in> set (drop (length (calls (sample_world (sample_storage None))))
                (calls (snd (ChainAnonymousCredentialsProvider sample_env sample_remote
                   sample_auth 0 (sample_world (sample_storage None))))))
   \<and> RoleSessionName sample_assumeRoleRequest = ''cwr''
   \<and> RoleArn sample_assumeRoleRequest = guestRoleArn (config sample_auth)"
proof -
  have miss: "AnonymousCookieCredentialsProvider sample_env 0
     (localStorage (sample_world (sample_storage None))) = Rejected (Thrown TypeError)"
    by (simp add: sample_world_def sample_miss)
  have run: "calls (snd (AnonymousCognitoCredentialsProvider sample_env sample_remote
                   sample_auth (sample_world (sample_storage None)))) = sample_calls"
    using cognito_success [where R = sample_remote and this = sample_auth
        and E = sample_env and w = "sample_world (sample_storage None)"
        and a = "\<lparr>IdentityId = ''us-west-2:identity''\<rparr>"
        and b = "\<lparr>Token = ''token''\<rparr>" and credentials = sample_credentials]
    by (simp add: sample_remote_answers sample_auth_fields sample_assumeRoleRequest_def
        sample_calls_def sample_world_def)
  have made: "AssumeRoleWithWebIdentity sample_assumeRoleRequest
      \<in> set (drop (length (calls (sample_world (sample_storage None))))
                (calls (snd (AnonymousCognitoCredentialsProvider sample_env sample_remote
                   sample_auth (sample_world (sample_storage None))))))"
    using run by (simp add: sample_calls_def sample_world_def)
  have chained: "AssumeRoleWithWebIdentity sample_assumeRoleRequest
      \<in> set (drop (length (calls (sample_world (sample_storage None))))
                (calls (snd (ChainAnonymousCredentialsProvider sample_env sample_remote
                   sample_auth 0 (sample_world (sample_storage None))))))"
    using made by (simp add: chain_on_miss [OF miss])
  show ?thesis
    using made chained
      sts_request_is_fixed [of sample_assumeRoleRequest "sample_world (sample_storage None)"
        sample_env sample_remote sample_auth 0]
    by simp
qed

section \<open>Storing and loading\<close>

lemma load_after_store:
  assumes "map_of ps ''expiration'' = Some (Obj (DateObject (Some t)) [])"
    and "JSON_stringify E (Obj PlainObject ps) = Inr text"
    and "setItem ls (CRED_KEY E) text = Inr ls'"
    and "JSON_parse E text = Some (Obj PlainObject (AList.update ''expiration'' (Str stamp) ps))"
    and "Date_parse E stamp = Some t"
    and "later < t"
  shows "AnonymousCookieCredentialsProvider E later (store_credentials E (Obj PlainObject ps) ls)
           = Fulfilled (Obj PlainObject ps)"
proof -
  have stored: "store_credentials E (Obj PlainObject ps) ls = ls'"
    and item: "getItem ls' (CRED_KEY E) = Inr (Some text)"
    using store_then_read [OF assms(2,3)] by simp_all
  have x: "get_prop (Obj PlainObject (AList.update ''expiration'' (Str stamp) ps)) ''expiration''
             = Inr (Str stamp)"
    by (simp add: update_conv')
  have d: "new_Date E (Str stamp) = Inr (Some t)"
    using assms(5) by simp
  have restored: "AList.update ''expiration'' (Obj (DateObject (Some t)) [])
                (AList.update ''expiration'' (Str stamp) ps) = ps"
    using assms(1) by (simp add: update_triv)
  show ?thesis
    using cookie_provider_object [OF item assms(4) x d, of later] assms(6) stored restored
    by simp
qed

text \<open>
  Claim C6. Let the three operations answer, the third with credentials whose expiration
  is a Date, and let the write of the Cognito provider succeed. Then the storage after the
  provider is the one \<^verbatim>\<open>setItem\<close> returns, with the text of
  \<^verbatim>\<open>JSON.stringify(credentials)\<close> under the key. If the browser reads that text back
  as the same record with the expiration as a text that \<^verbatim>\<open>Date.parse\<close> turns into
  the same time (as \<^verbatim>\<open>JSON.stringify\<close>, \<^verbatim>\<open>JSON.parse\<close> and \<^verbatim>\<open>Date\<close> do),
  then the cookie provider, run on the storage the Cognito provider leaves at any time
  strictly before the expiration, returns a record equal to the stored credentials in every
  property, the expiration again a Date of the same time. So after a call of the chain that
  missed the cache, a second call before the expiration returns the same credentials and
  changes nothing: it makes no remote call.
\<close>

theorem store_then_load_roundtrip:
  fixes this :: Authentication and E R w
  defines "q \<equiv> \<lparr>IdentityPoolId = identityPoolId (config this)\<rparr>"
    and "request \<equiv> (\<lambda>b. \<lparr>RoleArn = guestRoleArn (config this), RoleSessionName = ''cwr'',
                             WebIdentityToken = Token b\<rparr>)"
    and "after \<equiv> snd (AnonymousCognitoCredentialsProvider E R this w)"
  assumes "getId R (cognitoIdentityClient this) q = Inr a"
    and "getOpenIdToken R (cognitoIdentityClient this) a = Inr b"
    and "assumeRoleWithWebIdentity R (stsClient this) (request b) = Inr (Obj PlainObject ps)"
    and "map_of ps ''expiration'' = Some (Obj (DateObject (Some t)) [])"
    and "JSON_stringify E (Obj PlainObject ps) = Inr text"
    and "setItem (localStorage w) (CRED_KEY E) text = Inr ls'"
    and "JSON_parse E text = Some (Obj PlainObject (AList.update ''expiration'' (Str stamp) ps))"
    and "Date_parse E stamp = Some t"
    and "later < t"
  shows "localStorage after = ls'
       \<and> getItem (localStorage after) (CRED_KEY E) = Inr (Some text)
       \<and> AnonymousCookieCredentialsProvider E later (localStorage after)
           = Fulfilled (Obj PlainObject ps)
       \<and> (AnonymousCookieCredentialsProvider E now (localStorage w) = Rejected r \<longrightarrow>
            fst (ChainAnonymousCredentialsProvider E R this now w) = Fulfilled (Obj PlainObject ps)
            \<and> ChainAnonymousCredentialsProvider E R this later
                  (snd (ChainAnonymousCredentialsProvider E R this now w))
                = (Fulfilled (Obj PlainObject ps),
                   snd (ChainAnonymousCredentialsProvider E R this now w)))"
proof -
  have run: "AnonymousCognitoCredentialsProvider E R this w =
      (Fulfilled (Obj PlainObject ps),
       w\<lparr>calls := calls w @
            [GetId q, GetOpenIdToken a, AssumeRoleWithWebIdentity (request b)],
         localStorage := store_credentials E (Obj PlainObject ps) (localStorage w)\<rparr>)"
    using cognito_success [OF assms(4-6) [unfolded q_def request_def], of E w]
    by (simp add: q_def request_def)
  have kept: "localStorage after = store_credentials E (Obj PlainObject ps) (localStorage w)"
    by (simp add: after_def run)
  have stored: "localStorage after = ls'"
    and item: "getItem (localStorage after) (CRED_KEY E) = Inr (Some text)"
    using store_then_read [OF assms(8,9)] by (simp_all add: kept)
  have loaded: "AnonymousCookieCredentialsProvider E later (localStorage after)
      = Fulfilled (Obj PlainObject ps)"
    using load_after_store [OF assms(7-12)] by (simp add: kept)
  have again: "fst (ChainAnonymousCredentialsProvider E R this now w)
        = Fulfilled (Obj PlainObject ps)
      \<and> ChainAnonymousCredentialsProvider E R this later
            (snd (ChainAnonymousCredentialsProvider E R this now w))
          = (Fulfilled (Obj PlainObject ps),
             snd (ChainAnonymousCredentialsProvider E R this now w))"
    if "AnonymousCookieCredentialsProvider E now (localStorage w) = Rejected r"
  proof -
    have chain: "ChainAnonymousCredentialsProvider E R this now w =
        AnonymousCognitoCredentialsProvider E R this w"
      using that by (rule chain_on_miss)
    have "AnonymousCookieCredentialsProvider E later
        (localStorage (snd (ChainAnonymousCredentialsProvider E R this now w)))
      = Fulfilled (Obj PlainObject ps)"
      using loaded by (simp add: chain after_def)
    then show ?thesis
      by (simp add: ChainAnonymousCredentialsProvider_def [of E R this later] chain run)
  qed
  show ?thesis
    using stored item loaded again by blast
qed

theorem store_then_load_roundtrip_witness:
  "AnonymousCookieCredentialsProvider sample_env 0
     (localStorage (sample_world (sample_storage None))) = Rejected (Thrown TypeError)
   \<and> (1000::int) < 4070908800000
   \<and> localStorage (snd (AnonymousCognitoCredentialsProvider sample_env sample_remote
        sample_auth (sample_world (sample_storage None))))
      = sample_storage (Some sample_text)
   \<and> AnonymousCookieCredentialsProvider sample_env 1000
       (localStorage (snd (AnonymousCognitoCredentialsProvider sample_env sample_remote
          sample_auth (sample_world (sample_storage None)))))
      = Fulfilled sample_credentials
   \<and> ChainAnonymousCredentialsProvider sample_env sample_remote sample_auth 1000
       (snd (ChainAnonymousCredentialsProvider sample_env sample_remote sample_auth 0
          (sample_world (sample_storage None))))
      = (Fulfilled sample_credentials,
         snd (ChainAnonymousCredentialsProvider sample_env sample_remote sample_auth 0
          (sample_world (sample_storage None))))"
proof -
  let ?ps = "[(''accessKeyId'', Str ''AK1''), (''secretAccessKey'', Str ''S1''),
              (''sessionToken'', Str ''T1''),
              (''expiration'', Obj (DateObject (Some 4070908800000)) [])]"
  let ?w = "sample_world (sample_storage None)"
  have miss: "AnonymousCookieCredentialsProvider sample_env 0 (localStorage ?w)
      = Rejected (Thrown TypeError)"
    by (simp add: sample_world_def sample_miss)
  have one: "getId sample_remote (cognitoIdentityClient sample_auth)
      \<lparr>IdentityPoolId = identityPoolId (config sample_auth)\<rparr>
        = Inr \<lparr>IdentityId = ''us-west-2:identity''\<rparr>"
    by (rule sample_remote_answers)
  have two: "getOpenIdToken sample_remote (cognitoIdentityClient sample_auth)
      \<lparr>IdentityId = ''us-west-2:identity''\<rparr> = Inr \<lparr>Token = ''token''\<rparr>"
    by (rule sample_remote_answers)
  have three: "assumeRoleWithWebIdentity sample_remote (stsClient sample_auth)
      \<lparr>RoleArn = guestRoleArn (config sample_auth), RoleSessionName = ''cwr'',
       WebIdentityToken = Token \<lparr>Token = ''token''\<rparr>\<rparr> = Inr (Obj PlainObject ?ps)"
    using sample_remote_answers(3) by (simp add: sample_credentials_def)
  have date: "map_of ?ps ''expiration'' = Some (Obj (DateObject (Some 4070908800000)) [])"
    by simp
  have written: "JSON_stringify sample_env (Obj PlainObject ?ps) = Inr sample_text"
    using sample_stringify by (simp add: sample_credentials_def)
  have room: "setItem (localStorage ?w) (CRED_KEY sample_env) sample_text
     = Inr (sample_storage (Some sample_text))"
    by (simp add: sample_world_def sample_key sample_setItem)
  have parsed: "JSON_parse sample_env sample_text =
      Some (Obj PlainObject (AList.update ''expiration'' (Str ''2099-01-01T00:00:00.000Z'') ?ps))"
    using sample_parse by simp
  have time: "Date_parse sample_env ''2099-01-01T00:00:00.000Z'' = Some 4070908800000"
    by (simp add: sample_env_def sample_Date_parse_def)
  have future: "(1000::int) < 4070908800000"
    by simp
  show ?thesis
    using miss future
      store_then_load_roundtrip [OF one two three date written room parsed time future,
        where now = 0 and r = "Thrown TypeError"]
    unfolding sample_credentials_def by blast
qed

section \<open>Enabling and disabling the DOM event plugin\<close>

lemma enable_enabled: "enabled (fst (enable st))"
  by (simp add: enable_def split: prod.splits)

lemma disable_disabled: "\<not> enabled (fst (disable st))"
  by (simp add: disable_def split: prod.splits)

text \<open>
  Claim C10. The constructor leaves the plugin enabled. \<^verbatim>\<open>enable()\<close> on an enabled
  plugin (the new one among them) returns the plugin and the page as they were, so no
  listener is registered; \<^verbatim>\<open>disable()\<close> on a disabled plugin does the same, so no
  listener is removed. Hence each of the two, called twice, does what one call does.
\<close>

theorem enable_disable_idempotent:
  "enabled DomEventPlugin_constructor
   \<and> enable (DomEventPlugin_constructor, pg) = (DomEventPlugin_constructor, pg)
   \<and> (enabled this \<longrightarrow>
        enable (this, pg) = (this, pg)
        \<and> registered (snd (enable (this, pg))) = registered pg)
   \<and> (\<not> enabled this \<longrightarrow>
        disable (this, pg) = (this, pg)
        \<and> registered (snd (disable (this, pg))) = registered pg)
   \<and> enable (enable st) = enable st
   \<and> disable (disable st) = disable st"
proof -
  have c: "enabled DomEventPlugin_constructor"
    by (simp add: DomEventPlugin_constructor_def)
  have e: "enable (p, g) = (p, g)" if "enabled p" for p g
    using that by (simp add: enable_def)
  have d: "disable (p, g) = (p, g)" if "\<not> enabled p" for p g
    using that by (simp add: disable_def)
  have ee: "enable (enable st) = enable st"
    using e [of "fst (enable st)" "snd (enable st)"] enable_enabled [of st] by simp
  have dd: "disable (disable st) = disable st"
    using d [of "fst (disable st)" "snd (disable st)"] disable_disabled [of st] by simp
  show ?thesis
    using c e [OF c] e d ee dd by simp
qed

theorem enable_disable_idempotent_witness:
  "enabled DomEventPlugin_constructor
   \<and> enable (DomEventPlugin_constructor, sample_page) = (DomEventPlugin_constructor, sample_page)
   \<and> \<not> enabled (fst sample_disabled)
   \<and> disable sample_disabled = sample_disabled
   \<and> registered (snd (disable sample_disabled)) = registered (snd sample_disabled)"
proof -
  have off: "\<not> enabled (fst sample_disabled)"
    by (simp add: sample_disabled_def disable_disabled)
  show ?thesis
    using off
      enable_disable_idempotent [of sample_page DomEventPlugin_constructor sample_disabled]
      enable_disable_idempotent [of "snd sample_disabled" "fst sample_disabled" sample_disabled]
    by simp
qed

end
